theory Spec2Isabelle
  imports Main
begin

unbundle bit_operations_syntax

section \<open>Python values\<close>

text \<open>
  Values that the hooks build out of dynamically typed Python data: the \<open>extra\<close>
  dictionaries of events and the per-function decompiler caches. A dictionary is the list
  of its items in the order the code inserts the keys; every dictionary below is built by
  one fixed sequence of insertions, so two of them are equal in Python exactly when
  the lists are equal.
\<close>

datatype pyval =
    PNone
  | PInt int
  | PStr string
  | PList "pyval list"
  | PTuple "pyval list"
  | PDict "(string \<times> pyval) list"

text \<open>\<open>d[k] = v\<close> on a dictionary that does not hold \<open>k\<close> yet.\<close>

definition dict_set :: "string \<Rightarrow> pyval \<Rightarrow> (string \<times> pyval) list \<Rightarrow> (string \<times> pyval) list" where
  "dict_set k v d = d @ [(k, v)]"

text \<open>\<open>str(n)\<close> for an integer.\<close>

fun str_nat :: "nat \<Rightarrow> string" where
  "str_nat n =
     (if n < 10 then [''0123456789'' ! n]
      else str_nat (n div 10) @ [''0123456789'' ! (n mod 10)])"

declare str_nat.simps [simp del]

definition str_int :: "int \<Rightarrow> string" where
  "str_int i = (if i < 0 then CHR ''-'' # str_nat (nat (- i)) else str_nat (nat i))"

section \<open>The host's modules, as far as the hooks query them\<close>


record range_t =
  start_ea :: int
  end_ea :: int


record member_t =
  member_id :: int
  soff :: int
  eoff :: int
  member_flag :: int
  unimem :: bool

record segment_t =
  seg_start_ea :: int
  seg_end_ea :: int
  seg_orgbase :: int
  seg_align :: int
  seg_comb :: int
  seg_perm :: int
  seg_bitness :: int
  seg_flags :: int

record opinfo_t =
  ri_target :: int
  ri_base :: int
  ri_tdelta :: int
  ri_flags :: int
  ec_serial :: int
  opinfo_tid :: int
  opinfo_strtype :: int

text \<open>
  \<open>ida_bytes\<close>: the flag constants are the host's; they are parameters of the model.
  \<open>get_stroff_path\<close> gives the returned length, the array it fills (read by index) and
  the delta.
\<close>

record ida_bytes =
  MS_0TYPE :: int
  MS_1TYPE :: int
  hex_flag :: int
  dec_flag :: int
  char_flag :: int
  bin_flag :: int
  oct_flag :: int
  enum_flag :: int
  stroff_flag :: int
  stkvar_flag :: int
  off_flag :: int
  stru_flag :: int
  strlit_flag :: int
  get_full_flags :: "int \<Rightarrow> int"
  get_cmt :: "int \<Rightarrow> bool \<Rightarrow> string option"
  get_enum_id :: "int \<Rightarrow> int \<Rightarrow> int \<times> int"
  get_stroff_path :: "int \<Rightarrow> int \<Rightarrow> nat \<times> (nat \<Rightarrow> int) \<times> int"
  get_wide_byte :: "int \<Rightarrow> int"

record ida_enum =
  get_enum_idx :: "int \<Rightarrow> int"
  get_enum_name :: "int \<Rightarrow> string"
  get_enum_member_name :: "int \<Rightarrow> string"
  is_bf :: "int \<Rightarrow> bool"
  get_enum_cmt :: "int \<Rightarrow> bool \<Rightarrow> string"
  get_enum_member_value :: "int \<Rightarrow> int"
  get_enum_member_bmask :: "int \<Rightarrow> int"
  get_enum_member_serial :: "int \<Rightarrow> int"

record ida_struct =
  get_struc_name :: "int \<Rightarrow> string"
  is_union :: "int \<Rightarrow> bool"
  get_member_name :: "int \<Rightarrow> string"
  retrieve_member_info :: "member_t \<Rightarrow> opinfo_t option"
  get_struc_cmt :: "int \<Rightarrow> bool \<Rightarrow> string"

record ida_segment =
  get_segm_name :: "segment_t \<Rightarrow> string"
  get_segm_class :: "segment_t \<Rightarrow> string"

text \<open>
  \<open>ida_typeinf\<close>. \<open>tinfo_serialize t f\<close> stands for deserialising the raw pair into a
  fresh \<open>tinfo_t\<close> and calling \<open>serialize()\<close> on it, which yields a triple of which
  the code keeps the first two components.
\<close>

record ida_typeinf =
  get_ordinal_qty :: int
  idc_get_local_type_raw :: "int \<Rightarrow> (string \<times> string) option"
  get_numbered_type_name :: "int \<Rightarrow> string option"
  tinfo_serialize :: "string \<Rightarrow> string \<Rightarrow> string \<times> string \<times> string"
  idc_get_type_raw :: "int \<Rightarrow> (string \<times> string) option"

text \<open>
  \<open>ida_hexrays\<close>. The objects of the decompiler that the hooks read, with the attributes
  and methods the code calls. A container (\<open>user_labels_t\<close> and the like) is the list of
  its entries in the order the host's iterator visits them; \<open>None\<close> is the host's
  \<open>None\<close> (or \<open>False\<close> for \<open>restore_user_lvar_settings\<close>). An instruction flag is
  held as the address of its object, which \<open>read_type_sign\<close> reads four bytes from.
\<close>

record vdloc_t =
  vd_atype :: int
  vd_reg1 :: int
  vd_reg2 :: int
  vd_stkoff :: int
  vd_get_ea :: int

record lvar_locator_t =
  ll_location :: vdloc_t
  ll_defea :: int

record lvar_saved_info_t =
  lv_ll :: lvar_locator_t
  lv_name :: string
  lv_type :: "(string \<times> string \<times> string) option"
  lv_cmt :: string
  lv_flags :: int

record lvar_uservec_t =
  lvvec :: "lvar_saved_info_t list"
  lv_sizes :: "int list option"
  lmaps :: "(lvar_locator_t \<times> lvar_locator_t) list"
  stkoff_delta :: int
  ulv_flags :: int

record operand_locator_t =
  ol_ea :: int
  ol_opnum :: int

record number_format_t =
  nf_flags :: int
  nf_opnum :: int
  nf_props :: int
  nf_serial :: int
  nf_org_nbytes :: int
  nf_type_name :: string

record ida_hexrays =
  hxe_func_printed :: int
  init_hexrays_plugin :: bool
  restore_user_labels :: "int \<Rightarrow> (int \<times> string) list option"
  restore_user_cmts :: "int \<Rightarrow> ((int \<times> int) \<times> string) list option"
  restore_user_iflags :: "int \<Rightarrow> ((int \<times> int) \<times> nat) list option"
  read_type_sign :: "nat \<Rightarrow> int"
  restore_user_lvar_settings :: "int \<Rightarrow> lvar_uservec_t option"
  restore_user_numforms :: "int \<Rightarrow> (operand_locator_t \<times> number_format_t) list option"

text \<open>
  The whole host as the hooks see it: the modules above, \<open>ida_kernwin.get_screen_ea\<close>,
  \<open>ida_funcs.get_func\<close>, the values that the base class \<open>ida_idp.IDP_Hooks\<close> returns
  from the two callbacks the code forwards to it, \<open>ida_idaapi.BADADDR\<close>, and the two
  decoders \<open>Event.decode\<close> and \<open>Event.decode_bytes\<close> of the events module.
\<close>

record host =
  bytes :: ida_bytes
  enum :: ida_enum
  struct :: ida_struct
  segment :: ida_segment
  typeinf :: ida_typeinf
  hexrays :: ida_hexrays
  get_screen_ea :: int
  get_func :: "int \<Rightarrow> range_t option"
  base_ev_undefine :: "int \<Rightarrow> int"
  base_ev_adjust_argloc :: "pyval list \<Rightarrow> int"
  BADADDR :: int
  decode :: "string \<Rightarrow> string"
  decode_bytes :: "string \<Rightarrow> string"

section \<open>Events\<close>

text \<open>A slot of the type-library snapshot: \<open>None\<close>, or the tuple
  \<open>(ordinal, type_serialized[0], type_serialized[1], type_name)\<close>.\<close>

type_synonym local_type = "(int \<times> string \<times> string \<times> string option) option"

text \<open>One constructor for each event class that the hooks instantiate, with the
  arguments in the order the code passes them.\<close>

datatype (plugins only: extraction) event =
    MakeCodeEvent int
  | MakeDataEvent int int int int
  | RenamedEvent int string bool
  | FuncAddedEvent int int
  | DeletingFuncEvent int
  | SetFuncStartEvent int int
  | SetFuncEndEvent int int
  | FuncTailAppendedEvent int int int
  | FuncTailDeletedEvent int int
  | TailOwnerChangedEvent int int
  | CmtChangedEvent int string bool
  | RangeCmtChangedEvent int range_t string bool
  | ExtraCmtChangedEvent int int string
  | TiChangedEvent int "(string \<times> string) option"
  | LocalTypesChangedEvent "local_type list"
  | OpTypeChangedEvent int int string "(string \<times> pyval) list"
  | EnumCreatedEvent int string
  | EnumDeletedEvent string
  | EnumRenamedEvent string string bool
  | EnumBfChangedEvent string int
  | EnumCmtChangedEvent string string bool
  | EnumMemberCreatedEvent string string int int
  | EnumMemberDeletedEvent string int int int
  | StrucCreatedEvent int string bool
  | StrucDeletedEvent string
  | StrucRenamedEvent string string
  | StrucMemberCreatedEvent string string int int int "(string \<times> pyval) list"
  | StrucMemberDeletedEvent string int
  | StrucMemberRenamedEvent string int string
  | StrucCmtChangedEvent string string string bool
  | StrucMemberChangedEvent string int int int "(string \<times> pyval) list"
  | ExpandingStrucEvent string int int
  | SegmAddedEvent string string int int int int int int int int
  | SegmDeletedEvent int
  | SegmStartChangedEvent int int
  | SegmEndChangedEvent int int
  | SegmNameChangedEvent int string
  | SegmClassChangedEvent int string
  | SegmAttrsUpdatedEvent int int int
  | BytePatchedEvent int int
  | UndefinedEvent int
  | UserLabelsEvent int pyval
  | UserCmtsEvent int pyval
  | UserIflagsEvent int pyval
  | UserLvarSettingsEvent int pyval
  | UserNumformsEvent int pyval

text \<open>\<open>Hooks._send_event\<close> hands the event to \<open>network.send_packet\<close>; a handler's
  model returns the events it has sent, in order.\<close>

definition send_event :: "event \<Rightarrow> event list" where
  "send_event ev = [ev]"

section \<open>Type-library differencing (\<open>IDBHooks.local_types_changed\<close>)\<close>

text \<open>What one iteration of the loop \<open>for ordinal in range(1, get_ordinal_qty(None))\<close>
  appends to \<open>local_types\<close>, and the list at the end of the loop.\<close>

definition get_local_type :: "ida_typeinf \<Rightarrow> int \<Rightarrow> local_type" where
  "get_local_type ti ordinal =
     (case idc_get_local_type_raw ti ordinal of
        Some (type_str, fields_str) \<Rightarrow>
          (let type_name = get_numbered_type_name ti ordinal;
               type_serialized = tinfo_serialize ti type_str fields_str
           in Some (ordinal, fst type_serialized, fst (snd type_serialized), type_name))
      | None \<Rightarrow> None)"

definition collect_local_types :: "ida_typeinf \<Rightarrow> local_type list" where
  "collect_local_types ti = map (get_local_type ti) [1 .. get_ordinal_qty ti - 1]"

text \<open>One iteration of the loop of \<open>differ_local_types\<close>, and the loop itself over
  \<open>range(max([len(types1), len(types2)]))\<close>. An entry is \<open>(i, old, new)\<close>.\<close>

definition differ_step ::
  "'a option list \<Rightarrow> 'a option list \<Rightarrow> (nat \<times> 'a option \<times> 'a option) list \<Rightarrow> nat
     \<Rightarrow> (nat \<times> 'a option \<times> 'a option) list" where
  "differ_step types1 types2 ret_types i =
     (if i \<ge> length types1 then ret_types @ [(i, None, types2 ! i)]
      else if i \<ge> length types2 then ret_types @ [(i, types1 ! i, None)]
      else if types1 ! i \<noteq> types2 ! i then ret_types @ [(i, types1 ! i, types2 ! i)]
      else ret_types)"

definition differ_local_types ::
  "'a option list \<Rightarrow> 'a option list \<Rightarrow> (nat \<times> 'a option \<times> 'a option) list" where
  "differ_local_types types1 types2 =
     foldl (differ_step types1 types2) [] [0 ..< max (length types1) (length types2)]"

text \<open>The state of an \<open>IDBHooks\<close> object: \<open>last_local_type\<close>, \<open>None\<close> until the first
  comparison.\<close>

record idb_hooks =
  last_local_type :: "local_type list option"

text \<open>The body of \<open>local_types_changed\<close> after \<open>local_types\<close> has been collected:
  the events handed to \<open>_send_event\<close>, the returned status and the hooks object.\<close>

definition compare_local_types ::
  "local_type list \<Rightarrow> idb_hooks \<Rightarrow> event list \<times> int \<times> idb_hooks" where
  "compare_local_types local_types h =
     (case last_local_type h of
        None \<Rightarrow>
          ([LocalTypesChangedEvent local_types], 0, h\<lparr>last_local_type := Some local_types\<rparr>)
      | Some last_types \<Rightarrow>
          (let diff = differ_local_types last_types local_types;
               h' = h\<lparr>last_local_type := Some local_types\<rparr>
           in if length diff = 1 \<and> snd (snd (diff ! 0)) = None then ([], 0, h')
              else if length diff = 0 then ([], 0, h')
              else ([LocalTypesChangedEvent (map (\<lambda>t. snd (snd t)) diff)], 0, h')))"

definition local_types_changed :: "ida_typeinf \<Rightarrow> idb_hooks \<Rightarrow> event list \<times> int \<times> idb_hooks" where
  "local_types_changed ti h = compare_local_types (collect_local_types ti) h"

section \<open>The other callbacks of \<open>IDBHooks\<close>\<close>















subsection \<open>\<open>op_type_changed\<close>\<close>







subsection \<open>Enumerations\<close>








subsection \<open>Structures\<close>











subsection \<open>Segments and bytes\<close>









subsection \<open>The notifications of \<open>IDBHooks\<close>\<close>




section \<open>\<open>IDPHooks\<close>\<close>



section \<open>\<open>HexRaysHooks\<close>: the per-function caches\<close>

text \<open>The object's attributes. \<open>_available\<close> is \<open>None\<close>, \<open>False\<close> or \<open>True\<close>; the five
  caches hold whatever was assigned last, the empty dictionary at first.\<close>

record hexrays_hooks =
  available :: "bool option"
  installed :: bool
  func_ea :: int
  labels :: pyval
  cmts :: pyval
  iflags :: pyval
  lvar_settings :: pyval
  numforms :: pyval

definition hexrays_hooks_init :: "host \<Rightarrow> hexrays_hooks" where
  "hexrays_hooks_init hst =
     \<lparr>available = None, installed = False, func_ea = BADADDR hst,
      labels = PDict [], cmts = PDict [], iflags = PDict [],
      lvar_settings = PDict [], numforms = PDict []\<rparr>"

definition hx_hook :: "host \<Rightarrow> hexrays_hooks \<Rightarrow> hexrays_hooks" where
  "hx_hook hst h =
     (let h = (if available h = None then
                 (if \<not> init_hexrays_plugin (hexrays hst) then h\<lparr>available := Some False\<rparr>
                  else h\<lparr>available := Some True\<rparr>)
               else h)
      in if available h = Some True then h\<lparr>installed := True\<rparr> else h)"

definition hx_unhook :: "hexrays_hooks \<Rightarrow> hexrays_hooks" where
  "hx_unhook h = (if available h = Some True then h\<lparr>installed := False\<rparr> else h)"

subsection \<open>Reading the caches from the host\<close>

text \<open>Each \<open>while\<close> loop walks the host's iterator to its end and appends one item for
  each entry; a container that the host does not have is replaced by a new, empty one.\<close>

definition entries :: "'a list option \<Rightarrow> 'a list" where
  "entries c = (case c of None \<Rightarrow> [] | Some es \<Rightarrow> es)"

definition get_user_labels :: "host \<Rightarrow> int \<Rightarrow> pyval" where
  "get_user_labels hst ea =
     PList (map (\<lambda>(org_label, name). PTuple [PInt org_label, PStr (decode hst name)])
              (entries (restore_user_labels (hexrays hst) ea)))"

definition get_user_cmts :: "host \<Rightarrow> int \<Rightarrow> pyval" where
  "get_user_cmts hst ea =
     PList (map (\<lambda>((tl_ea, tl_itp), cmt).
                   PTuple [PTuple [PInt tl_ea, PInt tl_itp], PStr (decode hst cmt)])
              (entries (restore_user_cmts (hexrays hst) ea)))"

definition get_user_iflags :: "host \<Rightarrow> int \<Rightarrow> pyval" where
  "get_user_iflags hst ea =
     PList (map (\<lambda>((cl_ea, cl_op), f).
                   PTuple [PTuple [PInt cl_ea, PInt cl_op], PInt (read_type_sign (hexrays hst) f)])
              (entries (restore_user_iflags (hexrays hst) ea)))"

definition get_vdloc :: "vdloc_t \<Rightarrow> pyval" where
  "get_vdloc location =
     PDict [(''atype'', PInt (vd_atype location)), (''reg1'', PInt (vd_reg1 location)),
            (''reg2'', PInt (vd_reg2 location)), (''stkoff'', PInt (vd_stkoff location)),
            (''ea'', PInt (vd_get_ea location))]"

definition get_lvar_locator :: "lvar_locator_t \<Rightarrow> pyval" where
  "get_lvar_locator ll =
     PDict [(''location'', get_vdloc (ll_location ll)), (''defea'', PInt (ll_defea ll))]"

text \<open>An empty \<open>tinfo_t\<close> is \<open>None\<close> here; otherwise the triple it serialises to.\<close>

definition get_tinfo :: "host \<Rightarrow> (string \<times> string \<times> string) option \<Rightarrow> pyval" where
  "get_tinfo hst type =
     (case type of
        None \<Rightarrow> PTuple [PNone, PNone, PNone]
      | Some (type', fields', fldcmts) \<Rightarrow>
          PTuple [PStr (decode_bytes hst type'), PStr (decode_bytes hst fields'),
                  PStr (decode_bytes hst fldcmts)])"

definition get_lvar_saved_info :: "host \<Rightarrow> lvar_saved_info_t \<Rightarrow> pyval" where
  "get_lvar_saved_info hst lv =
     PDict [(''ll'', get_lvar_locator (lv_ll lv)), (''name'', PStr (decode hst (lv_name lv))),
            (''type'', get_tinfo hst (lv_type lv)), (''cmt'', PStr (decode hst (lv_cmt lv))),
            (''flags'', PInt (lv_flags lv))]"

definition get_user_lvar_settings :: "host \<Rightarrow> int \<Rightarrow> pyval" where
  "get_user_lvar_settings hst ea =
     (let dct = []
      in case restore_user_lvar_settings (hexrays hst) ea of
           Some lvinf \<Rightarrow>
             (let dct = dict_set ''lvvec'' (PList (map (get_lvar_saved_info hst) (lvvec lvinf))) dct;
                  dct = (case lv_sizes lvinf of
                           Some sizes \<Rightarrow> dict_set ''sizes'' (PList (map PInt sizes)) dct
                         | None \<Rightarrow> dct);
                  dct = dict_set ''lmaps''
                          (PList (map (\<lambda>(key, val).
                                         PTuple [get_lvar_locator key, get_lvar_locator val])
                                    (lmaps lvinf))) dct;
                  dct = dict_set ''stkoff_delta'' (PInt (stkoff_delta lvinf)) dct;
                  dct = dict_set ''ulv_flags'' (PInt (ulv_flags lvinf)) dct
              in PDict dct)
         | None \<Rightarrow> PDict dct)"

definition get_operand_locator :: "operand_locator_t \<Rightarrow> pyval" where
  "get_operand_locator ol = PDict [(''ea'', PInt (ol_ea ol)), (''opnum'', PInt (ol_opnum ol))]"

definition get_number_format :: "number_format_t \<Rightarrow> pyval" where
  "get_number_format nf =
     PDict [(''flags'', PInt (nf_flags nf)), (''opnum'', PInt (nf_opnum nf)),
            (''props'', PInt (nf_props nf)), (''serial'', PInt (nf_serial nf)),
            (''org_nbytes'', PInt (nf_org_nbytes nf)), (''type_name'', PStr (nf_type_name nf))]"

definition get_user_numforms :: "host \<Rightarrow> int \<Rightarrow> pyval" where
  "get_user_numforms hst ea =
     PList (map (\<lambda>(ol, nf). PTuple [get_operand_locator ol, get_number_format nf])
              (entries (restore_user_numforms (hexrays hst) ea)))"

subsection \<open>Comparing and sending\<close>

text \<open>Each \<open>_send_user_*\<close> returns the events sent and the updated object.\<close>

definition send_user_labels :: "host \<Rightarrow> int \<Rightarrow> hexrays_hooks \<Rightarrow> event list \<times> hexrays_hooks" where
  "send_user_labels hst ea h =
     (let labels' = get_user_labels hst ea
      in if labels' \<noteq> labels h
         then (send_event (UserLabelsEvent ea labels'), h\<lparr>labels := labels'\<rparr>)
         else ([], h))"

definition send_user_cmts :: "host \<Rightarrow> int \<Rightarrow> hexrays_hooks \<Rightarrow> event list \<times> hexrays_hooks" where
  "send_user_cmts hst ea h =
     (let cmts' = get_user_cmts hst ea
      in if cmts' \<noteq> cmts h
         then (send_event (UserCmtsEvent ea cmts'), h\<lparr>cmts := cmts'\<rparr>)
         else ([], h))"

definition send_user_iflags :: "host \<Rightarrow> int \<Rightarrow> hexrays_hooks \<Rightarrow> event list \<times> hexrays_hooks" where
  "send_user_iflags hst ea h =
     (let iflags' = get_user_iflags hst ea
      in if iflags' \<noteq> iflags h
         then (send_event (UserIflagsEvent ea iflags'), h\<lparr>iflags := iflags'\<rparr>)
         else ([], h))"

definition send_user_lvar_settings :: "host \<Rightarrow> int \<Rightarrow> hexrays_hooks \<Rightarrow> event list \<times> hexrays_hooks" where
  "send_user_lvar_settings hst ea h =
     (let lvar_settings' = get_user_lvar_settings hst ea
      in if lvar_settings' \<noteq> lvar_settings h
         then (send_event (UserLvarSettingsEvent ea lvar_settings'),
               h\<lparr>lvar_settings := lvar_settings'\<rparr>)
         else ([], h))"

definition send_user_numforms :: "host \<Rightarrow> int \<Rightarrow> hexrays_hooks \<Rightarrow> event list \<times> hexrays_hooks" where
  "send_user_numforms hst ea h =
     (let numforms' = get_user_numforms hst ea
      in if numforms' \<noteq> numforms h
         then (send_event (UserNumformsEvent ea numforms'), h\<lparr>numforms := numforms'\<rparr>)
         else ([], h))"

text \<open>The assignments made when the displayed function is not the one bound.\<close>

definition rebind :: "host \<Rightarrow> int \<Rightarrow> hexrays_hooks \<Rightarrow> hexrays_hooks" where
  "rebind hst ea h =
     (let h = h\<lparr>func_ea := ea\<rparr>;
          h = h\<lparr>labels := get_user_labels hst (func_ea h)\<rparr>;
          h = h\<lparr>cmts := get_user_cmts hst (func_ea h)\<rparr>;
          h = h\<lparr>iflags := get_user_iflags hst (func_ea h)\<rparr>;
          h = h\<lparr>lvar_settings := get_user_lvar_settings hst (func_ea h)\<rparr>;
          h = h\<lparr>numforms := get_user_numforms hst (func_ea h)\<rparr>
      in h)"

text \<open>
  \<open>_hxe_callback\<close>: the events sent, the value returned (\<open>None\<close> is Python's \<open>None\<close>,
  which the bare \<open>return\<close> gives) and the updated object.
\<close>

definition hxe_callback ::
  "host \<Rightarrow> int \<Rightarrow> hexrays_hooks \<Rightarrow> event list \<times> int option \<times> hexrays_hooks" where
  "hxe_callback hst event h =
     (if \<not> installed h then ([], Some 0, h)
      else if event = hxe_func_printed (hexrays hst) then
        (let ea = get_screen_ea hst;
             func = get_func hst ea
         in case func of
              None \<Rightarrow> ([], None, h)
            | Some func \<Rightarrow>
                (let h = (if func_ea h \<noteq> start_ea func then rebind hst (start_ea func) h else h);
                     (e1, h) = send_user_labels hst (start_ea func) h;
                     (e2, h) = send_user_cmts hst (start_ea func) h;
                     (e3, h) = send_user_iflags hst (start_ea func) h;
                     (e4, h) = send_user_lvar_settings hst (start_ea func) h;
                     (e5, h) = send_user_numforms hst (start_ea func) h
                 in (e1 @ e2 @ e3 @ e4 @ e5, Some 0, h)))
      else ([], Some 0, h))"

section \<open>The session state manager (\<open>Core\<close>)\<close>

text \<open>The commands that \<open>Core\<close> sends with \<open>network.send_packet\<close>.\<close>

datatype command =
    Subscribe string string int
  | Unsubscribe

text \<open>A value read from the state file by \<open>json.loads\<close>.\<close>

datatype json =
    JNull
  | JBool bool
  | JNum int
  | JStr string
  | JArr "json list"
  | JObj "(string \<times> json) list"

datatype py_error = TypeError | AttributeError | OSError

text \<open>
  The attributes of the \<open>Core\<close> object, with the three hook objects that \<open>_install\<close>
  creates right after \<open>load_state\<close>, followed by what it acts on outside itself:
  \<^item> \<open>idb_hooked\<close> and \<open>idp_hooked\<close>: whether the host has the \<open>IDBHooks\<close> and the
    \<open>IDPHooks\<close> object registered (the base classes' \<open>hook()\<close> and \<open>unhook()\<close>);
  \<^item> \<open>ticks\<close>: the attribute of that name, which the object does not have until
    something assigns to it;
  \<^item> \<open>netnode\<close>: the hash values of the netnode \<open>$ idaconnect\<close> of the database, a value
    being the string or \<open>None\<close> that \<open>hashset\<close> was given;
  \<^item> \<open>packets\<close>: the commands handed to \<open>network.send_packet\<close>, oldest first;
  \<^item> \<open>connect_requests\<close>: the calls of \<open>network.connect\<close>, oldest first;
  \<^item> \<open>state_file\<close>: the object that \<open>files/state.json\<close> holds, \<open>None\<close> when there is
    no such file;
  \<^item> \<open>files\<close>: the paths that exist; \<open>undeletable\<close>: those that \<open>os.remove\<close> fails on;
    \<open>remove_calls\<close>: the calls of \<open>os.remove\<close>, oldest first.
\<close>

record core =
  idbHooks :: idb_hooks
  idb_hooked :: bool
  idp_hooked :: bool
  hxeHooks :: hexrays_hooks
  repo :: "string option"
  branch :: "string option"
  tick :: int
  ticks :: "int option"
  servers :: "(json \<times> json) list"
  netnode :: "string \<rightharpoonup> string option"
  packets :: "command list"
  connect_requests :: "(json \<times> json) list"
  state_file :: "(string \<rightharpoonup> json) option"
  files :: "string set"
  undeletable :: "string set"
  remove_calls :: "string list"

definition send_packet :: "command \<Rightarrow> core \<Rightarrow> core" where
  "send_packet c s = s\<lparr>packets := packets s @ [c]\<rparr>"

definition hook_all :: "host \<Rightarrow> core \<Rightarrow> core" where
  "hook_all hst s =
     (let s = s\<lparr>idb_hooked := True\<rparr>;
          s = s\<lparr>idp_hooked := True\<rparr>;
          s = s\<lparr>hxeHooks := hx_hook hst (hxeHooks s)\<rparr>
      in s)"

definition unhook_all :: "core \<Rightarrow> core" where
  "unhook_all s =
     (let s = s\<lparr>idb_hooked := False\<rparr>;
          s = s\<lparr>idp_hooked := False\<rparr>;
          s = s\<lparr>hxeHooks := hx_unhook (hxeHooks s)\<rparr>
      in s)"

text \<open>\<open>save_netnode\<close> writes all three keys from the attributes.\<close>

definition hashset :: "string \<Rightarrow> string option \<Rightarrow> core \<Rightarrow> core" where
  "hashset k v s = s\<lparr>netnode := (netnode s)(k \<mapsto> v)\<rparr>"

definition save_netnode :: "core \<Rightarrow> core" where
  "save_netnode s =
     (let s = hashset ''hash'' (repo s) s;
          s = hashset ''uuid'' (branch s) s;
          s = hashset ''tick'' (Some (str_int (tick s))) s
      in s)"

text \<open>The setters of the properties \<open>repo\<close>, \<open>branch\<close> and \<open>tick\<close>.\<close>

definition set_repo :: "string option \<Rightarrow> core \<Rightarrow> core" where
  "set_repo hash s = save_netnode (s\<lparr>repo := hash\<rparr>)"

definition set_branch :: "string option \<Rightarrow> core \<Rightarrow> core" where
  "set_branch uuid s = save_netnode (s\<lparr>branch := uuid\<rparr>)"

definition set_tick :: "int \<Rightarrow> core \<Rightarrow> core" where
  "set_tick t s = save_netnode (s\<lparr>tick := t\<rparr>)"

text \<open>\<open>IDBHooksCore.closebase\<close>. Its last assignment is to \<open>core.ticks\<close>, which is no
  property of the class: it gives the object an attribute of that name.\<close>

definition closebase :: "core \<Rightarrow> int \<times> core" where
  "closebase s =
     (let s = send_packet Unsubscribe s;
          s = unhook_all s;
          s = set_repo None s;
          s = set_branch None s;
          s = s\<lparr>ticks := Some 0\<rparr>
      in (0, s))"

text \<open>\<open>notify_connected\<close>; \<open>self._repo and self._branch\<close> holds when both are strings
  that are not empty.\<close>

definition notify_connected :: "host \<Rightarrow> core \<Rightarrow> core" where
  "notify_connected hst s =
     (case (repo s, branch s) of
        (Some r, Some b) \<Rightarrow>
          if r \<noteq> [] \<and> b \<noteq> [] then hook_all hst (send_packet (Subscribe r b (tick s)) s) else s
      | _ \<Rightarrow> s)"

subsection \<open>\<open>load_state\<close>\<close>

text \<open>Python's truth value of a JSON value.\<close>

fun truthy :: "json \<Rightarrow> bool" where
  "truthy JNull = False"
| "truthy (JBool b) = b"
| "truthy (JNum n) = (n \<noteq> 0)"
| "truthy (JStr s) = (s \<noteq> [])"
| "truthy (JArr xs) = (xs \<noteq> [])"
| "truthy (JObj kvs) = (kvs \<noteq> [])"

text \<open>Iterating over a JSON value: the items of a list, the characters of a string, the
  keys of an object; the others cannot be iterated over.\<close>

fun py_iter :: "json \<Rightarrow> json list option" where
  "py_iter (JArr xs) = Some xs"
| "py_iter (JStr cs) = Some (map (\<lambda>c. JStr [c]) cs)"
| "py_iter (JObj kvs) = Some (map (\<lambda>kv. JStr (fst kv)) kvs)"
| "py_iter _ = None"

text \<open>\<open>Server(*s)\<close>: the named tuple takes exactly two arguments.\<close>

definition make_server :: "json \<Rightarrow> py_error + json \<times> json" where
  "make_server s =
     (case py_iter s of
        Some [h, p] \<Rightarrow> Inr (h, p)
      | _ \<Rightarrow> Inl TypeError)"

fun make_servers :: "json list \<Rightarrow> py_error + (json \<times> json) list" where
  "make_servers [] = Inr []"
| "make_servers (s # ss) =
     (case make_server s of
        Inl e \<Rightarrow> Inl e
      | Inr srv \<Rightarrow> (case make_servers ss of Inl e \<Rightarrow> Inl e | Inr srvs \<Rightarrow> Inr (srv # srvs)))"

text \<open>
  \<open>os.path.splitext\<close> of the standard library, in its POSIX form: the extension starts
  at the last dot, if that dot comes after the last slash and after a character of the
  file name that is not a dot.
\<close>

primrec rfind_from :: "char \<Rightarrow> int \<Rightarrow> int \<Rightarrow> string \<Rightarrow> int" where
  "rfind_from c i found [] = found"
| "rfind_from c i found (x # xs) = rfind_from c (i + 1) (if x = c then i else found) xs"

definition rfind :: "char \<Rightarrow> string \<Rightarrow> int" where
  "rfind c p = rfind_from c 0 (- 1) p"

definition splitext :: "string \<Rightarrow> string \<times> string" where
  "splitext p =
     (let sepIndex = rfind (CHR ''/'') p;
          dotIndex = rfind (CHR ''.'') p
      in if dotIndex > sepIndex \<and>
            (\<exists>c \<in> set (take (nat (dotIndex - (sepIndex + 1))) (drop (nat (sepIndex + 1)) p)).
               c \<noteq> CHR ''.'')
         then (take (nat dotIndex) p, drop (nat dotIndex) p)
         else (p, []))"

text \<open>\<open>os.path.exists\<close> and \<open>os.remove\<close>.\<close>

definition path_exists :: "string \<Rightarrow> core \<Rightarrow> bool" where
  "path_exists path s = (path \<in> files s)"

definition os_remove :: "string \<Rightarrow> core \<Rightarrow> py_error option \<times> core" where
  "os_remove path s =
     (let s = s\<lparr>remove_calls := remove_calls s @ [path]\<rparr>
      in if path \<in> undeletable s \<or> path \<notin> files s then (Some OSError, s)
         else (None, s\<lparr>files := files s - {path}\<rparr>))"

text \<open>The loop \<open>for ext in [...]\<close>: an exception of \<open>os.remove\<close> ends it.\<close>

fun remove_siblings :: "string \<Rightarrow> string list \<Rightarrow> core \<Rightarrow> py_error option \<times> core" where
  "remove_siblings idbFile [] s = (None, s)"
| "remove_siblings idbFile (ext # exts) s =
     (if path_exists (idbFile @ ext) s then
        (case os_remove (idbFile @ ext) s of
           (Some e, s') \<Rightarrow> (Some e, s')
         | (None, s') \<Rightarrow> remove_siblings idbFile exts s')
      else remove_siblings idbFile exts s)"

text \<open>
  \<open>load_state\<close>: \<open>None\<close> with the state reached when it returns, the exception with the
  state reached when one is raised.
\<close>

definition load_state :: "core \<Rightarrow> py_error option \<times> core" where
  "load_state s =
     (case state_file s of
        None \<Rightarrow> (None, s)
      | Some state \<Rightarrow>
          (case (case state ''servers'' of
                   None \<Rightarrow> Inr s
                 | Some v \<Rightarrow>
                     (case py_iter v of
                        None \<Rightarrow> Inl TypeError
                      | Some ss \<Rightarrow>
                          (case make_servers ss of
                             Inl e \<Rightarrow> Inl e
                           | Inr srvs \<Rightarrow> Inr (s\<lparr>servers := srvs\<rparr>)))) of
             Inl e \<Rightarrow> (Some e, s)
           | Inr s \<Rightarrow>
               if (case state ''connect'' of None \<Rightarrow> False | Some c \<Rightarrow> truthy c) then
                 (let s = (case (state ''host'', state ''port'') of
                             (Some h, Some p) \<Rightarrow>
                               s\<lparr>connect_requests := connect_requests s @ [(h, p)]\<rparr>
                           | _ \<Rightarrow> s)
                  in case state ''remove'' of
                       None \<Rightarrow> (None, s)
                     | Some (JStr path) \<Rightarrow>
                         (let (idbFile, idbExt) = splitext path
                          in remove_siblings idbFile
                               [''.id0'', ''.id1'', ''.nam'', ''.til'', ''.seg''] s)
                     | Some _ \<Rightarrow> (Some AttributeError, s))
               else (None, s)))"

section \<open>Notions used in the statements\<close>

text \<open>The value of a snapshot at an index, \<open>None\<close> past its end.\<close>

definition slot :: "'a option list \<Rightarrow> nat \<Rightarrow> 'a option" where
  "slot types i = (if i < length types then types ! i else None)"

text \<open>The slots of a snapshot that are not \<open>None\<close>, in order.\<close>

definition non_null_slots :: "'a option list \<Rightarrow> 'a option list" where
  "non_null_slots types = filter (\<lambda>t. t \<noteq> None) types"

text \<open>The changed set as the specification words it: every index below the longer
  length at which the padded values differ, with the two padded values.\<close>

definition padded_diff :: "'a option list \<Rightarrow> 'a option list \<Rightarrow> (nat \<times> 'a option \<times> 'a option) list" where
  "padded_diff types1 types2 =
     map (\<lambda>i. (i, slot types1 i, slot types2 i))
       (filter (\<lambda>i. slot types1 i \<noteq> slot types2 i) [0 ..< max (length types1) (length types2)])"

text \<open>The third component of an entry of the diff.\<close>

definition new_value :: "nat \<times> 'a option \<times> 'a option \<Rightarrow> 'a option" where
  "new_value t = snd (snd t)"

text \<open>A diff of one entry whose new value is \<open>None\<close>.\<close>

definition single_deletion :: "(nat \<times> 'a option \<times> 'a option) list \<Rightarrow> bool" where
  "single_deletion diff = (length diff = 1 \<and> new_value (hd diff) = None)"

text \<open>A type library of two ordinals, the first of which holds no type.\<close>

definition typeinf_with_gap :: ida_typeinf where
  "typeinf_with_gap =
     \<lparr>get_ordinal_qty = 3,
      idc_get_local_type_raw = (\<lambda>ordinal. if ordinal = 2 then Some (''t'', ''f'') else None),
      get_numbered_type_name = (\<lambda>ordinal. Some ''T''),
      tinfo_serialize = (\<lambda>t f. (t, f, [])),
      idc_get_type_raw = (\<lambda>ea. None)\<rparr>"

text \<open>Three slots of a type library, and a hooks object whose last snapshot they are.\<close>

definition type_a :: local_type where
  "type_a = Some (1, ''ta'', ''fa'', Some ''A'')"

definition type_b :: local_type where
  "type_b = Some (2, ''tb'', ''fb'', Some ''B'')"

definition type_c :: local_type where
  "type_c = Some (3, ''tc'', ''fc'', Some ''C'')"

definition hooks_abc :: idb_hooks where
  "hooks_abc = \<lparr>last_local_type = Some [type_a, type_b, type_c]\<rparr>"



text \<open>
  A host for the examples. The flag constants are those of the host's SDK
  (\<open>MS_0TYPE = 0x00F00000\<close>, \<open>MS_1TYPE = 0x0F000000\<close>, \<open>hex_flag() = 0x01100000\<close>, and so
  on). The byte at \<open>4096\<close> has a hexadecimal first operand, the one at \<open>4100\<close> a floating
  point one. One function, from \<open>4096\<close> to \<open>4200\<close>, is displayed; the decompiler holds
  one user label and one user comment for it.
\<close>

definition sample_bytes :: ida_bytes where
  "sample_bytes =
     \<lparr>MS_0TYPE = 15728640, MS_1TYPE = 251658240,
      hex_flag = 17825792, dec_flag = 35651584, char_flag = 53477376, bin_flag = 106954752,
      oct_flag = 124780544, enum_flag = 142606336, stroff_flag = 178257920,
      stkvar_flag = 196083712, off_flag = 89128960, stru_flag = 1610612736,
      strlit_flag = 1342177280,
      get_full_flags = (\<lambda>ea. if ea = 4096 then 1049600 else if ea = 4100 then 12583936 else 0),
      get_cmt = (\<lambda>ea rpt. None),
      get_enum_id = (\<lambda>ea n. (7, 0)),
      get_stroff_path = (\<lambda>ea n. (0, (\<lambda>i. 0), 0)),
      get_wide_byte = (\<lambda>ea. 144)\<rparr>"

definition sample_enum :: ida_enum where
  "sample_enum =
     \<lparr>get_enum_idx = (\<lambda>eid. 0), get_enum_name = (\<lambda>eid. ''E''),
      get_enum_member_name = (\<lambda>cid. ''M''), is_bf = (\<lambda>eid. False),
      get_enum_cmt = (\<lambda>eid rpt. []), get_enum_member_value = (\<lambda>cid. 1),
      get_enum_member_bmask = (\<lambda>cid. - 1), get_enum_member_serial = (\<lambda>cid. 0)\<rparr>"

definition sample_struct :: ida_struct where
  "sample_struct =
     \<lparr>get_struc_name = (\<lambda>sid. ''S''), is_union = (\<lambda>sid. False),
      get_member_name = (\<lambda>mid. ''f''), retrieve_member_info = (\<lambda>mptr. None),
      get_struc_cmt = (\<lambda>sid rpt. [])\<rparr>"

definition sample_segment :: ida_segment where
  "sample_segment = \<lparr>get_segm_name = (\<lambda>s. ''.text''), get_segm_class = (\<lambda>s. ''CODE'')\<rparr>"

definition sample_hexrays :: ida_hexrays where
  "sample_hexrays =
     \<lparr>hxe_func_printed = 107, init_hexrays_plugin = True,
      restore_user_labels = (\<lambda>ea. if ea = 4096 then Some [(1, ''lbl'')] else None),
      restore_user_cmts = (\<lambda>ea. if ea = 4096 then Some [((4100, 74), ''note'')] else None),
      restore_user_iflags = (\<lambda>ea. None),
      read_type_sign = (\<lambda>f. 0),
      restore_user_lvar_settings = (\<lambda>ea. None),
      restore_user_numforms = (\<lambda>ea. None)\<rparr>"

definition sample_host :: host where
  "sample_host =
     \<lparr>bytes = sample_bytes, enum = sample_enum, struct = sample_struct,
      segment = sample_segment, typeinf = typeinf_with_gap, hexrays = sample_hexrays,
      get_screen_ea = 4100,
      get_func = (\<lambda>ea. if 4096 \<le> ea \<and> ea < 4200
                        then Some \<lparr>start_ea = 4096, end_ea = 4200\<rparr> else None),
      base_ev_undefine = (\<lambda>ea. 0),
      base_ev_adjust_argloc = (\<lambda>args. 0),
      BADADDR = 18446744073709551615,
      decode = (\<lambda>s. s),
      decode_bytes = (\<lambda>s. s)\<rparr>"

text \<open>The same host with the cursor at an address that belongs to no function.\<close>

definition sample_host_no_func :: host where
  "sample_host_no_func = sample_host\<lparr>get_screen_ea := 0\<rparr>"

text \<open>
  Hooks objects, installed. \<open>hx_fresh\<close> is bound to the function at \<open>4096\<close> with all five
  caches as they were before the user added the label and the comment; \<open>hx_labelled\<close>
  has seen the label and not the comment; \<open>hx_elsewhere\<close> is bound to another
  function, whose caches are those of \<open>hx_labelled\<close>.
\<close>

definition hx_fresh :: hexrays_hooks where
  "hx_fresh =
     \<lparr>available = Some True, installed = True, func_ea = 4096,
      labels = PList [], cmts = PList [], iflags = PList [],
      lvar_settings = PDict [], numforms = PList []\<rparr>"

definition hx_labelled :: hexrays_hooks where
  "hx_labelled = hx_fresh\<lparr>labels := PList [PTuple [PInt 1, PStr ''lbl'']]\<rparr>"

definition hx_elsewhere :: hexrays_hooks where
  "hx_elsewhere = hx_labelled\<lparr>func_ea := 8192\<rparr>"


text \<open>The object with all five caches as the host gives them for a function.\<close>

definition with_caches_of :: "host \<Rightarrow> int \<Rightarrow> hexrays_hooks \<Rightarrow> hexrays_hooks" where
  "with_caches_of hst ea h =
     h\<lparr>labels := get_user_labels hst ea, cmts := get_user_cmts hst ea,
       iflags := get_user_iflags hst ea, lvar_settings := get_user_lvar_settings hst ea,
       numforms := get_user_numforms hst ea\<rparr>"

text \<open>The class invariant of \<open>HexRaysHooks\<close>: installed only when available.\<close>

definition hx_inv :: "hexrays_hooks \<Rightarrow> bool" where
  "hx_inv h = (installed h \<longrightarrow> available h = Some True)"

text \<open>
  The launch state of the reconnect example, and the five sibling files of its
  \<open>remove\<close> path in the order of the loop.
\<close>

definition sample_launch_state :: "string \<rightharpoonup> json" where
  "sample_launch_state =
     [''connect'' \<mapsto> JBool True, ''host'' \<mapsto> JStr ''h'', ''port'' \<mapsto> JNum 1234,
      ''remove'' \<mapsto> JStr ''/tmp/sample.idb'']"

definition sample_siblings :: "string list" where
  "sample_siblings =
     [''/tmp/sample.id0'', ''/tmp/sample.id1'', ''/tmp/sample.nam'', ''/tmp/sample.til'',
      ''/tmp/sample.seg'']"

text \<open>
  Of a list of paths: those that exist, in order; of these, the ones before the first
  that cannot be deleted; and that first one, if there is one.
\<close>

definition existing :: "core \<Rightarrow> string list \<Rightarrow> string list" where
  "existing s paths = filter (\<lambda>p. p \<in> files s) paths"

definition deleted :: "core \<Rightarrow> string list \<Rightarrow> string list" where
  "deleted s paths = takeWhile (\<lambda>p. p \<notin> undeletable s) (existing s paths)"

definition failed :: "core \<Rightarrow> string list \<Rightarrow> string list" where
  "failed s paths = take 1 (dropWhile (\<lambda>p. p \<notin> undeletable s) (existing s paths))"

text \<open>
  A session for the examples: a database bound to repository \<open>r1\<close> and branch \<open>b1\<close> at
  tick \<open>7\<close>, as stored in its netnode, before and after the network has connected.
  \<open>core_restarted\<close> is the object at start-up with the launch state above on disk and
  two of the sibling files present; in \<open>core_locked\<close> the first of them cannot be
  deleted.
\<close>

definition core_bound :: core where
  "core_bound =
     \<lparr>idbHooks = \<lparr>last_local_type = None\<rparr>, idb_hooked = False, idp_hooked = False,
      hxeHooks = hexrays_hooks_init sample_host,
      repo = Some ''r1'', branch = Some ''b1'', tick = 7, ticks = None, servers = [],
      netnode = [''hash'' \<mapsto> Some ''r1'', ''uuid'' \<mapsto> Some ''b1'', ''tick'' \<mapsto> Some ''7''],
      packets = [], connect_requests = [], state_file = None,
      files = {}, undeletable = {}, remove_calls = []\<rparr>"

definition core_subscribed :: core where
  "core_subscribed = notify_connected sample_host core_bound"

definition core_restarted :: core where
  "core_restarted =
     core_bound\<lparr>repo := None, branch := None, tick := 0, netnode := Map.empty,
       state_file := Some sample_launch_state,
       files := {''/tmp/sample.id0'', ''/tmp/sample.nam'', ''/tmp/other.idb''}\<rparr>"

definition core_locked :: core where
  "core_locked = core_restarted\<lparr>undeletable := {''/tmp/sample.id0''}\<rparr>"

section \<open>The type-library diff\<close>

lemma differ_step_append: "differ_step t1 t2 r i = r @ differ_step t1 t2 [] i"
  by (simp add: differ_step_def)

lemma foldl_differ_step:
  "foldl (differ_step t1 t2) r ixs = r @ concat (map (differ_step t1 t2 []) ixs)"
proof (induction ixs arbitrary: r)
  case Nil
  show ?case by simp
next
  case (Cons i ixs)
  have "foldl (differ_step t1 t2) r (i # ixs) = foldl (differ_step t1 t2) (differ_step t1 t2 r i) ixs"
    by simp
  also have "\<dots> = differ_step t1 t2 r i @ concat (map (differ_step t1 t2 []) ixs)"
    by (rule Cons.IH)
  also have "differ_step t1 t2 r i = r @ differ_step t1 t2 [] i"
    by (rule differ_step_append)
  finally show ?case by simp
qed

lemma concat_map_if:
  "(\<And>x. x \<in> set xs \<Longrightarrow> f x = (if p x then [g x] else [])) \<Longrightarrow>
   concat (map f xs) = map g (filter p xs)"
  by (induction xs) auto

lemma differ_local_types_filter:
  "differ_local_types P C =
     map (\<lambda>i. (i, slot P i, slot C i))
       (filter (\<lambda>i. length P \<le> i \<or> length C \<le> i \<or> P ! i \<noteq> C ! i)
          [0 ..< max (length P) (length C)])"
  unfolding differ_local_types_def foldl_differ_step append_Nil
  by (rule concat_map_if) (auto simp: differ_step_def slot_def)

lemma differ_append_one: "differ_local_types P (P @ [x]) = [(length P, None, x)]"
proof -
  have "filter (\<lambda>i. length P \<le> i \<or> length (P @ [x]) \<le> i \<or> P ! i \<noteq> (P @ [x]) ! i)
          [0 ..< length P] = []"
    by (auto simp: filter_empty_conv nth_append)
  then show ?thesis
    by (simp add: differ_local_types_filter slot_def)
qed

lemma differ_same: "differ_local_types C C = []"
  by (simp add: differ_local_types_filter filter_empty_conv)

lemma single_deletion_iff:
  "single_deletion diff = (length diff = 1 \<and> snd (snd (diff ! 0)) = None)"
  by (cases diff) (auto simp: single_deletion_def new_value_def)

lemma compare_local_types_later:
  "last_local_type h = Some P \<Longrightarrow>
   compare_local_types C h =
     (if differ_local_types P C = [] \<or> single_deletion (differ_local_types P C) then []
      else [LocalTypesChangedEvent (map new_value (differ_local_types P C))],
      0, h\<lparr>last_local_type := Some C\<rparr>)"
  by (auto simp: compare_local_types_def Let_def single_deletion_iff new_value_def)

lemma new_values_of_diff:
  "map new_value (differ_local_types P C) =
     map (slot C) (filter (\<lambda>i. length P \<le> i \<or> length C \<le> i \<or> P ! i \<noteq> C ! i)
                     [0 ..< max (length P) (length C)])"
  by (simp add: differ_local_types_filter new_value_def comp_def)

lemmas upt_small =
  upt_rec [of 0] upt_rec [of 1] upt_rec [of 2] upt_rec [of "Suc 0"] upt_rec [of "Suc (Suc 0)"]

text \<open>
  C2, as the code has it. On the first comparison (\<open>last_local_type\<close> is \<open>None\<close>) the one
  event sent carries the whole current snapshot: one slot for each ordinal from \<open>1\<close> to
  \<open>get_ordinal_qty - 1\<close>, in that order, the slot of an ordinal without a type being
  \<open>None\<close>. Null slots are not left out. The snapshot becomes the stored one and the
  status is \<open>0\<close>.
\<close>

theorem first_comparison_sends_whole_snapshot:
  assumes "last_local_type h = None"
  shows "local_types_changed ti h =
           ([LocalTypesChangedEvent (collect_local_types ti)], 0,
            h\<lparr>last_local_type := Some (collect_local_types ti)\<rparr>)
         \<and> length (collect_local_types ti) = nat (get_ordinal_qty ti - 1)
         \<and> (\<forall>i < length (collect_local_types ti).
               collect_local_types ti ! i = get_local_type ti (int i + 1))"
  using assms
  by (simp add: local_types_changed_def compare_local_types_def collect_local_types_def add.commute)

theorem first_comparison_sends_whole_snapshot_witness:
  "local_types_changed typeinf_with_gap \<lparr>last_local_type = None\<rparr> =
     ([LocalTypesChangedEvent [None, Some (2, ''t'', ''f'', Some ''T'')]], 0,
      \<lparr>last_local_type = Some [None, Some (2, ''t'', ''f'', Some ''T'')]\<rparr>)"
  using first_comparison_sends_whole_snapshot [of "\<lparr>last_local_type = None\<rparr>" typeinf_with_gap]
  by (simp add: collect_local_types_def typeinf_with_gap_def get_local_type_def upto.simps)

text \<open>
  C2 as stated fails: with a type library whose ordinal \<open>1\<close> holds no type and whose
  ordinal \<open>2\<close> does, the first comparison sends the null slot as well, which is not the
  sequence of the non-null slots.
\<close>

theorem first_comparison_null_slots_counterexample:
  "fst (local_types_changed typeinf_with_gap \<lparr>last_local_type = None\<rparr>)
     = [LocalTypesChangedEvent [None, Some (2, ''t'', ''f'', Some ''T'')]]
   \<and> fst (local_types_changed typeinf_with_gap \<lparr>last_local_type = None\<rparr>)
     \<noteq> [LocalTypesChangedEvent (non_null_slots (collect_local_types typeinf_with_gap))]"
  by (simp add: local_types_changed_def compare_local_types_def collect_local_types_def
      typeinf_with_gap_def get_local_type_def upto.simps non_null_slots_def)

text \<open>
  C3, as the code has it. On a later comparison (a previous snapshot \<open>P\<close> is stored)
  against the current snapshot \<open>C\<close>, what is sent, if anything, is one event carrying
  the new values at the collected indices in ascending order of index; the indices
  themselves are not sent. Nothing is sent when the diff is empty, which is the case
  when \<open>C\<close> equals \<open>P\<close>, nor when it is a single entry whose new value is \<open>None\<close>.
  \<open>C\<close> becomes the stored snapshot in every case.
\<close>

theorem later_comparison_sends_new_values:
  assumes "last_local_type h = Some P"
  shows "compare_local_types C h =
           (if differ_local_types P C = [] \<or> single_deletion (differ_local_types P C) then []
            else [LocalTypesChangedEvent (map new_value (differ_local_types P C))],
            0, h\<lparr>last_local_type := Some C\<rparr>)
         \<and> map new_value (differ_local_types P C) =
             map (slot C) (filter (\<lambda>i. length P \<le> i \<or> length C \<le> i \<or> P ! i \<noteq> C ! i)
                             [0 ..< max (length P) (length C)])
         \<and> (differ_local_types P C = [] \<longrightarrow> fst (compare_local_types C h) = [])
         \<and> (C = P \<longrightarrow> differ_local_types P C = [] \<and> fst (compare_local_types C h) = [])"
proof -
  have later: "compare_local_types C h =
           (if differ_local_types P C = [] \<or> single_deletion (differ_local_types P C) then []
            else [LocalTypesChangedEvent (map new_value (differ_local_types P C))],
            0, h\<lparr>last_local_type := Some C\<rparr>)"
    using assms by (rule compare_local_types_later)
  have empty: "differ_local_types P C = [] \<longrightarrow> fst (compare_local_types C h) = []"
    by (simp add: later)
  have same: "C = P \<longrightarrow> differ_local_types P C = [] \<and> fst (compare_local_types C h) = []"
    by (simp add: differ_same compare_local_types_later [OF assms])
  show ?thesis
    using later new_values_of_diff [of P C] empty same by blast
qed

theorem later_comparison_sends_new_values_witness:
  "compare_local_types [type_a, None, None] hooks_abc =
     ([LocalTypesChangedEvent [None, None]], 0, \<lparr>last_local_type = Some [type_a, None, None]\<rparr>)
   \<and> compare_local_types [type_a, type_b, type_c] hooks_abc =
     ([], 0, \<lparr>last_local_type = Some [type_a, type_b, type_c]\<rparr>)"
  using later_comparison_sends_new_values [of hooks_abc "[type_a, type_b, type_c]" "[type_a, None, None]"]
    later_comparison_sends_new_values [of hooks_abc "[type_a, type_b, type_c]" "[type_a, type_b, type_c]"]
  by (simp add: hooks_abc_def differ_local_types_filter slot_def single_deletion_def new_value_def
      type_a_def type_b_def type_c_def upt_small)

text \<open>
  C3 as stated fails: no index is transmitted. Against the stored snapshot
  \<open>[a, b, c]\<close>, the snapshots \<open>[None, None, c]\<close> (indices \<open>0\<close> and \<open>1\<close> changed) and
  \<open>[a, None, None]\<close> (indices \<open>1\<close> and \<open>2\<close> changed) send the same event, whose payload is
  the bare list of new values \<open>[None, None]\<close>.
\<close>

theorem later_comparison_indices_counterexample:
  "fst (compare_local_types [None, None, type_c] hooks_abc) = [LocalTypesChangedEvent [None, None]]
   \<and> fst (compare_local_types [type_a, None, None] hooks_abc) = [LocalTypesChangedEvent [None, None]]
   \<and> map fst (differ_local_types [type_a, type_b, type_c] [None, None, type_c]) = [0, 1]
   \<and> map fst (differ_local_types [type_a, type_b, type_c] [type_a, None, None]) = [1, 2]"
  by (simp add: compare_local_types_def hooks_abc_def differ_local_types_filter slot_def
      type_a_def type_b_def type_c_def upt_small Let_def)

text \<open>
  C4, as the code has it. On a later comparison nothing is sent exactly when the diff is
  empty or is a single entry whose new value is \<open>None\<close>, at whatever index that entry is.
  A diff of more than one entry is always sent, and so is a single entry whose new value
  is not \<open>None\<close>.
\<close>

theorem single_deletion_is_swallowed:
  assumes "last_local_type h = Some P"
  shows "(fst (compare_local_types C h) = []) =
           (differ_local_types P C = [] \<or> single_deletion (differ_local_types P C))
         \<and> (1 < length (differ_local_types P C) \<longrightarrow>
              fst (compare_local_types C h) =
                [LocalTypesChangedEvent (map new_value (differ_local_types P C))])
         \<and> (length (differ_local_types P C) = 1 \<and> new_value (hd (differ_local_types P C)) \<noteq> None \<longrightarrow>
              fst (compare_local_types C h) =
                [LocalTypesChangedEvent (map new_value (differ_local_types P C))])"
  by (auto simp: compare_local_types_later [OF assms] single_deletion_def)

theorem single_deletion_is_swallowed_witness:
  "fst (compare_local_types [None, type_b, type_c] hooks_abc) = []
   \<and> fst (compare_local_types [None, None, type_c] hooks_abc) = [LocalTypesChangedEvent [None, None]]
   \<and> fst (compare_local_types [type_a, type_c, type_c] hooks_abc) = [LocalTypesChangedEvent [type_c]]"
  using single_deletion_is_swallowed [of hooks_abc "[type_a, type_b, type_c]" "[None, type_b, type_c]"]
    single_deletion_is_swallowed [of hooks_abc "[type_a, type_b, type_c]" "[None, None, type_c]"]
    single_deletion_is_swallowed [of hooks_abc "[type_a, type_b, type_c]" "[type_a, type_c, type_c]"]
  by (simp add: hooks_abc_def differ_local_types_filter slot_def single_deletion_def new_value_def
      type_a_def type_b_def type_c_def upt_small)

text \<open>
  C4 as stated fails: a deletion that is not at the last position is swallowed too.
  Against the stored snapshot \<open>[a, b, c]\<close>, the snapshot \<open>[None, b, c]\<close> has the diff
  \<open>[(0, a, None)]\<close> and sends nothing.
\<close>

theorem leading_deletion_swallowed_counterexample:
  "fst (compare_local_types [None, type_b, type_c] hooks_abc) = []
   \<and> differ_local_types [type_a, type_b, type_c] [None, type_b, type_c] = [(0, type_a, None)]"
  by (simp add: compare_local_types_def hooks_abc_def differ_local_types_filter slot_def
      type_a_def type_b_def type_c_def upt_small Let_def)

text \<open>
  C5, as the code has it. \<open>differ_local_types P C\<close> walks the indices below
  \<open>max (len P) (len C)\<close> in ascending order and collects \<open>(i, old, new)\<close>, a missing side
  being \<open>None\<close>: an index that both snapshots have is collected exactly when the two
  values differ; an index past the end of either snapshot is always collected, also
  when the slot of the other is \<open>None\<close>. For a previous snapshot of length \<open>3\<close> and a
  current one that appends a non-null slot to it, the result is exactly
  \<open>[(3, None, newValue)]\<close>.
\<close>

theorem differ_local_types_collects:
  "differ_local_types P C =
     map (\<lambda>i. (i, slot P i, slot C i))
       (filter (\<lambda>i. length P \<le> i \<or> length C \<le> i \<or> P ! i \<noteq> C ! i)
          [0 ..< max (length P) (length C)])
   \<and> (length P = 3 \<longrightarrow> differ_local_types P (P @ [Some v]) = [(3, None, Some v)])"
  using differ_local_types_filter [of P C] differ_append_one [of P "Some v"] by auto

theorem differ_local_types_collects_witness:
  "differ_local_types [type_a, type_b, type_c] [type_a, None] = [(1, type_b, None), (2, type_c, None)]
   \<and> differ_local_types [type_a, type_b, type_c]
        ([type_a, type_b, type_c] @ [Some (4, ''td'', ''fd'', Some ''D'')])
       = [(3, None, Some (4, ''td'', ''fd'', Some ''D''))]"
  using differ_local_types_collects [of "[type_a, type_b, type_c]" "[type_a, None]"]
    differ_local_types_collects [of "[type_a, type_b, type_c]" _ "(4, ''td'', ''fd'', Some ''D'')"]
  by (simp add: slot_def type_a_def type_b_def type_c_def upt_small)

text \<open>
  C5 as stated fails: an index past the end of the previous snapshot is collected
  although the padded values are equal. From the empty snapshot to \<open>[None]\<close> the code
  collects \<open>(0, None, None)\<close>, where the padded values do not differ anywhere.
\<close>

theorem differ_null_past_end_counterexample:
  "differ_local_types ([] :: local_type list) [None] = [(0, None, None)]
   \<and> padded_diff ([] :: local_type list) [None] = []"
  by (simp add: differ_local_types_def differ_step_def padded_diff_def slot_def)

section \<open>The operand-representation callback\<close>



lemma sample_sel [simp]:
  "bytes sample_host = sample_bytes" "enum sample_host = sample_enum"
  "struct sample_host = sample_struct" "hexrays sample_host = sample_hexrays"
  "typeinf sample_host = typeinf_with_gap" "segment sample_host = sample_segment"
  by (simp_all add: sample_host_def)



section \<open>The entry points of the adapter\<close>


lemma send_user_labels_same:
  "labels h = get_user_labels hst ea \<Longrightarrow> send_user_labels hst ea h = ([], h)"
  by (simp add: send_user_labels_def)
lemma send_user_cmts_same:
  "cmts h = get_user_cmts hst ea \<Longrightarrow> send_user_cmts hst ea h = ([], h)"
  by (simp add: send_user_cmts_def)
lemma send_user_iflags_same:
  "iflags h = get_user_iflags hst ea \<Longrightarrow> send_user_iflags hst ea h = ([], h)"
  by (simp add: send_user_iflags_def)
lemma send_user_lvar_settings_same:
  "lvar_settings h = get_user_lvar_settings hst ea \<Longrightarrow> send_user_lvar_settings hst ea h = ([], h)"
  by (simp add: send_user_lvar_settings_def)
lemma send_user_numforms_same:
  "numforms h = get_user_numforms hst ea \<Longrightarrow> send_user_numforms hst ea h = ([], h)"
  by (simp add: send_user_numforms_def)

lemma rebind_eq:
  "rebind hst ea h = (with_caches_of hst ea h)\<lparr>func_ea := ea\<rparr>"
  by (simp add: rebind_def with_caches_of_def Let_def)

lemma hxe_callback_rebinds:
  assumes "installed h" and "event = hxe_func_printed (hexrays hst)"
    and "get_func hst (get_screen_ea hst) = Some func" and "func_ea h \<noteq> start_ea func"
  shows "hxe_callback hst event h = ([], Some 0, rebind hst (start_ea func) h)"
  using assms
  by (simp add: hxe_callback_def Let_def rebind_eq with_caches_of_def
      send_user_labels_same send_user_cmts_same send_user_iflags_same
      send_user_lvar_settings_same send_user_numforms_same)




lemma sample_caches [simp]:
  "get_user_labels sample_host 4096 = PList [PTuple [PInt 1, PStr ''lbl'']]"
  "get_user_cmts sample_host 4096 = PList [PTuple [PTuple [PInt 4100, PInt 74], PStr ''note'']]"
  "get_user_iflags sample_host 4096 = PList []"
  "get_user_lvar_settings sample_host 4096 = PDict []"
  "get_user_numforms sample_host 4096 = PList []"
  by (simp_all add: get_user_labels_def get_user_cmts_def get_user_iflags_def
      get_user_lvar_settings_def get_user_numforms_def sample_hexrays_def entries_def
      sample_host_def)

lemma sample_func [simp]:
  "get_func sample_host (get_screen_ea sample_host) = Some \<lparr>start_ea = 4096, end_ea = 4200\<rparr>"
  "hxe_func_printed sample_hexrays = 107"
  "get_func sample_host_no_func (get_screen_ea sample_host_no_func) = None"
  "hexrays sample_host_no_func = sample_hexrays"
  by (simp_all add: sample_host_def sample_hexrays_def sample_host_no_func_def)

lemma sample_hx [simp]:
  "installed hx_fresh" "installed hx_labelled" "installed hx_elsewhere"
  "func_ea hx_fresh = 4096" "func_ea hx_labelled = 4096" "func_ea hx_elsewhere = 8192"
  by (simp_all add: hx_fresh_def hx_labelled_def hx_elsewhere_def)







text \<open>
  C10. When the refreshed function is not the one bound, the callback sends no event and
  returns \<open>0\<close>, whatever the caches held before: with the hooks installed it first binds
  the object to the displayed function and stores the five caches read from the host
  for it, so that none of the five comparisons finds a difference; with the hooks not
  installed it returns at once.
\<close>

theorem switching_function_sends_nothing:
  assumes "event = hxe_func_printed (hexrays hst)"
    and "get_func hst (get_screen_ea hst) = Some func" and "func_ea h \<noteq> start_ea func"
  shows "fst (hxe_callback hst event h) = []
         \<and> fst (snd (hxe_callback hst event h)) = Some 0
         \<and> (installed h \<longrightarrow>
              snd (snd (hxe_callback hst event h)) =
                (with_caches_of hst (start_ea func) h)\<lparr>func_ea := start_ea func\<rparr>)"
proof (cases "installed h")
  case True
  then show ?thesis
    using hxe_callback_rebinds [OF True assms] by (simp add: rebind_eq)
next
  case False
  then show ?thesis
    by (simp add: hxe_callback_def)
qed

theorem switching_function_sends_nothing_witness:
  "hxe_callback sample_host 107 hx_elsewhere =
     ([], Some 0,
      hx_fresh\<lparr>labels := PList [PTuple [PInt 1, PStr ''lbl'']],
               cmts := PList [PTuple [PTuple [PInt 4100, PInt 74], PStr ''note'']]\<rparr>)"
proof -
  have "fst (hxe_callback sample_host 107 hx_elsewhere) = []
        \<and> fst (snd (hxe_callback sample_host 107 hx_elsewhere)) = Some 0
        \<and> snd (snd (hxe_callback sample_host 107 hx_elsewhere)) =
            (with_caches_of sample_host 4096 hx_elsewhere)\<lparr>func_ea := 4096\<rparr>"
    using switching_function_sends_nothing
      [of 107 sample_host "\<lparr>start_ea = 4096, end_ea = 4200\<rparr>" hx_elsewhere]
    by simp
  then have "hxe_callback sample_host 107 hx_elsewhere =
               ([], Some 0, (with_caches_of sample_host 4096 hx_elsewhere)\<lparr>func_ea := 4096\<rparr>)"
    by (simp add: prod_eq_iff)
  then show ?thesis
    by (simp add: with_caches_of_def hx_elsewhere_def hx_labelled_def hx_fresh_def)
qed

section \<open>The session state manager\<close>

lemma hx_inv_init: "hx_inv (hexrays_hooks_init hst)"
  by (simp add: hx_inv_def hexrays_hooks_init_def)

lemma hx_inv_hook: "hx_inv h \<Longrightarrow> hx_inv (hx_hook hst h)"
  by (auto simp: hx_inv_def hx_hook_def Let_def)

lemma hx_inv_unhook: "hx_inv h \<Longrightarrow> hx_inv (hx_unhook h)"
  by (auto simp: hx_inv_def hx_unhook_def)

lemma hx_unhook_off: "hx_inv h \<Longrightarrow> \<not> installed (hx_unhook h)"
  by (auto simp: hx_inv_def hx_unhook_def)

lemma str_int_7: "str_int 7 = ''7''"
  by (simp add: str_int_def str_nat.simps)

lemma core_subscribed_eq:
  "core_subscribed =
     core_bound\<lparr>packets := [Subscribe ''r1'' ''b1'' 7], idb_hooked := True, idp_hooked := True,
       hxeHooks := (hexrays_hooks_init sample_host)\<lparr>available := Some True, installed := True\<rparr>\<rparr>"
  by (simp add: core_subscribed_def notify_connected_def core_bound_def send_packet_def
      hook_all_def hx_hook_def hexrays_hooks_init_def Let_def sample_host_def sample_hexrays_def)

lemma splitext_sample: "splitext ''/tmp/sample.idb'' = (''/tmp/sample'', ''.idb'')"
  by (simp add: splitext_def rfind_def)

lemma remove_siblings_spec:
  "distinct exts \<Longrightarrow>
   remove_siblings f exts s =
     (if failed s (map ((@) f) exts) = [] then None else Some OSError,
      s\<lparr>remove_calls := remove_calls s @ deleted s (map ((@) f) exts) @ failed s (map ((@) f) exts),
        files := files s - set (deleted s (map ((@) f) exts))\<rparr>)"
proof (induction exts arbitrary: s)
  case Nil
  show ?case by (simp add: failed_def deleted_def existing_def)
next
  case (Cons e exts)
  let ?p = "f @ e"
  have d: "distinct exts" and notin: "?p \<notin> set (map ((@) f) exts)"
    using Cons.prems by auto
  show ?case
  proof (cases "?p \<in> files s")
    case False
    then show ?thesis
      using Cons.IH [OF d, of s]
      by (simp add: path_exists_def failed_def deleted_def existing_def)
  next
    case True
    show ?thesis
    proof (cases "?p \<in> undeletable s")
      case True
      then show ?thesis
        using \<open>?p \<in> files s\<close>
        by (simp add: path_exists_def os_remove_def Let_def failed_def deleted_def existing_def)
    next
      case False
      let ?s1 = "s\<lparr>remove_calls := remove_calls s @ [?p], files := files s - {?p}\<rparr>"
      have ex: "existing ?s1 (map ((@) f) exts) = existing s (map ((@) f) exts)"
        unfolding existing_def using notin by (intro filter_cong) auto
      have del: "deleted ?s1 (map ((@) f) exts) = deleted s (map ((@) f) exts)"
        and fl: "failed ?s1 (map ((@) f) exts) = failed s (map ((@) f) exts)"
        using ex by (simp_all add: deleted_def failed_def)
      have step: "remove_siblings f (e # exts) s = remove_siblings f exts ?s1"
        using False \<open>?p \<in> files s\<close> by (simp add: path_exists_def os_remove_def Let_def)
      have here: "deleted s (map ((@) f) (e # exts)) = ?p # deleted s (map ((@) f) exts)"
        "failed s (map ((@) f) (e # exts)) = failed s (map ((@) f) exts)"
        using False \<open>?p \<in> files s\<close> by (simp_all add: deleted_def failed_def existing_def)
      have sets: "files s - {?p} - set (deleted s (map ((@) f) exts)) =
                    files s - insert ?p (set (deleted s (map ((@) f) exts)))"
        by auto
      show ?thesis
        unfolding step Cons.IH [OF d, of ?s1] del fl here
        by (simp add: sets)
    qed
  qed
qed

text \<open>
  C1, as the code has it. When the database is closing, \<open>closebase\<close> sends
  \<open>Unsubscribe()\<close>, unhooks the three hook objects (the decompiler hooks are off
  afterwards whenever they were installed through \<open>hook\<close>), sets the repository and the
  branch to \<open>None\<close> in memory and returns \<open>0\<close>. Each of the two assignments goes through
  its setter, which writes the netnode of the database: afterwards the stored repository
  and branch are \<open>None\<close> and the stored tick is the decimal string of the tick in memory.
\<close>

theorem closebase_unsubscribes_and_clears:
  "fst (closebase s) = 0
   \<and> packets (snd (closebase s)) = packets s @ [Unsubscribe]
   \<and> \<not> idb_hooked (snd (closebase s)) \<and> \<not> idp_hooked (snd (closebase s))
   \<and> (hx_inv (hxeHooks s) \<longrightarrow> \<not> installed (hxeHooks (snd (closebase s))))
   \<and> repo (snd (closebase s)) = None \<and> branch (snd (closebase s)) = None
   \<and> netnode (snd (closebase s)) =
       (netnode s)(''hash'' \<mapsto> None, ''uuid'' \<mapsto> None,
                   ''tick'' \<mapsto> Some (str_int (tick (snd (closebase s)))))"
  by (auto simp: closebase_def send_packet_def unhook_all_def set_repo_def set_branch_def
      save_netnode_def hashset_def Let_def hx_unhook_off fun_eq_iff)

theorem closebase_unsubscribes_and_clears_witness:
  "hx_inv (hxeHooks core_subscribed)
   \<and> installed (hxeHooks core_subscribed) \<and> idb_hooked core_subscribed
   \<and> packets (snd (closebase core_subscribed)) = [Subscribe ''r1'' ''b1'' 7, Unsubscribe]
   \<and> \<not> installed (hxeHooks (snd (closebase core_subscribed)))
   \<and> \<not> idb_hooked (snd (closebase core_subscribed))
   \<and> repo (snd (closebase core_subscribed)) = None"
proof -
  have inv: "hx_inv (hxeHooks core_subscribed)"
    by (simp add: core_subscribed_eq hx_inv_def)
  have "packets core_subscribed = [Subscribe ''r1'' ''b1'' 7]"
    "installed (hxeHooks core_subscribed)" "idb_hooked core_subscribed"
    by (simp_all add: core_subscribed_eq)
  then show ?thesis
    using closebase_unsubscribes_and_clears [of core_subscribed] inv by simp
qed

text \<open>
  C1 as stated fails for a session bound to repository \<open>r1\<close> at tick \<open>7\<close>: closing the
  database overwrites the stored repository and branch, so the store is not left as it
  was; and the tick in memory stays \<open>7\<close>, the \<open>0\<close> going to the attribute \<open>ticks\<close>.
\<close>

theorem closebase_store_and_tick_counterexample:
  "netnode core_subscribed ''hash'' = Some (Some ''r1'')
   \<and> netnode (snd (closebase core_subscribed)) ''hash'' = Some None
   \<and> netnode (snd (closebase core_subscribed)) ''uuid'' = Some None
   \<and> tick (snd (closebase core_subscribed)) = 7
   \<and> ticks (snd (closebase core_subscribed)) = Some 0"
  by (simp add: core_subscribed_eq core_bound_def closebase_def send_packet_def unhook_all_def
      set_repo_def set_branch_def save_netnode_def hashset_def Let_def)

text \<open>
  C9, as the code has it. Loading the launch state with connect true, host \<open>h\<close>, port
  \<open>1234\<close> and remove \<open>/tmp/sample.idb\<close> issues exactly one connect request, to
  \<open>(h, 1234)\<close>, and then goes through \<open>/tmp/sample.id0\<close>, \<open>.id1\<close>, \<open>.nam\<close>, \<open>.til\<close>,
  \<open>.seg\<close> in this order: a sibling that does not exist is skipped, one that exists is
  removed. The first removal that fails ends \<open>load_state\<close> with the error: the siblings
  after it are not attempted, and the connect request has been issued before.
\<close>

theorem load_state_reconnects_and_cleans:
  assumes "state_file s = Some sample_launch_state"
  shows "fst (load_state s) = (if failed s sample_siblings = [] then None else Some OSError)
         \<and> connect_requests (snd (load_state s)) = connect_requests s @ [(JStr ''h'', JNum 1234)]
         \<and> remove_calls (snd (load_state s)) =
             remove_calls s @ deleted s sample_siblings @ failed s sample_siblings
         \<and> files (snd (load_state s)) = files s - set (deleted s sample_siblings)"
proof -
  let ?s1 = "s\<lparr>connect_requests := connect_requests s @ [(JStr ''h'', JNum 1234)]\<rparr>"
  have sib: "map ((@) ''/tmp/sample'') [''.id0'', ''.id1'', ''.nam'', ''.til'', ''.seg''] = sample_siblings"
    by (simp add: sample_siblings_def)
  have l: "load_state s =
             remove_siblings ''/tmp/sample'' [''.id0'', ''.id1'', ''.nam'', ''.til'', ''.seg''] ?s1"
    using assms by (simp add: load_state_def sample_launch_state_def splitext_sample)
  have same: "deleted ?s1 sample_siblings = deleted s sample_siblings"
    "failed ?s1 sample_siblings = failed s sample_siblings"
    by (simp_all add: deleted_def failed_def existing_def)
  have "distinct [''.id0'', ''.id1'', ''.nam'', ''.til'', ''.seg'']"
    by simp
  from remove_siblings_spec [OF this, of "''/tmp/sample''" ?s1]
  show ?thesis
    unfolding l sib same by simp
qed

theorem load_state_reconnects_and_cleans_witness:
  "state_file core_restarted = Some sample_launch_state
   \<and> fst (load_state core_restarted) = None
   \<and> connect_requests (snd (load_state core_restarted)) = [(JStr ''h'', JNum 1234)]
   \<and> remove_calls (snd (load_state core_restarted)) = [''/tmp/sample.id0'', ''/tmp/sample.nam'']
   \<and> files (snd (load_state core_restarted)) = {''/tmp/other.idb''}"
proof -
  have st: "state_file core_restarted = Some sample_launch_state"
    and f: "files core_restarted = {''/tmp/sample.id0'', ''/tmp/sample.nam'', ''/tmp/other.idb''}"
    and u: "undeletable core_restarted = {}"
    and r: "remove_calls core_restarted = []" "connect_requests core_restarted = []"
    by (simp_all add: core_restarted_def core_bound_def)
  have d: "deleted core_restarted sample_siblings = [''/tmp/sample.id0'', ''/tmp/sample.nam'']"
    "failed core_restarted sample_siblings = []"
    by (simp_all add: deleted_def failed_def existing_def f u sample_siblings_def)
  show ?thesis
    using load_state_reconnects_and_cleans [OF st] st by (auto simp: d f r)
qed

text \<open>
  C9 as stated fails when a removal fails: with \<open>/tmp/sample.id0\<close> and
  \<open>/tmp/sample.nam\<close> present and the first of them not deletable, \<open>load_state\<close> raises
  the error of \<open>os.remove\<close>, and \<open>/tmp/sample.nam\<close> is neither attempted nor removed.
\<close>

theorem load_state_failed_removal_counterexample:
  "fst (load_state core_locked) = Some OSError
   \<and> remove_calls (snd (load_state core_locked)) = [''/tmp/sample.id0'']
   \<and> ''/tmp/sample.nam'' \<in> files (snd (load_state core_locked))"
  by (simp add: load_state_def core_locked_def core_restarted_def core_bound_def
      sample_launch_state_def splitext_sample path_exists_def os_remove_def Let_def)

end
